theory Spec2Isabelle
  imports Complex_Main "HOL-Library.Word"
begin

section \<open>Strings of the host language\<close>

text \<open>
  A JavaScript string is a sequence of 16-bit code units. Text written in this theory
  as an Isabelle string literal is turned into code units by \<open>U\<close>, one unit per
  character (all the literals of \<open>services/geminiService.ts\<close> lie in Latin-1).
\<close>

type_synonym codeunit = "16 word"

type_synonym jsstring = "codeunit list"

definition U :: "string \<Rightarrow> jsstring" where
  "U s = map (\<lambda>c. of_nat (of_char c)) s"

text \<open>\<open>Array.prototype.join\<close> on an array of strings.\<close>

fun join :: "jsstring \<Rightarrow> jsstring list \<Rightarrow> jsstring" where
  "join sep [] = []"
| "join sep [x] = x"
| "join sep (x # y # ys) = x @ sep @ join sep (y # ys)"

text \<open>
  \<open>String.prototype.trim\<close> removes the code units that are WhiteSpace or
  LineTerminator in ECMAScript from both ends.
\<close>

definition isTrimWhitespace :: "codeunit \<Rightarrow> bool" where
  "isTrimWhitespace c \<longleftrightarrow>
     c = 0x09 \<or> c = 0x0A \<or> c = 0x0B \<or> c = 0x0C \<or> c = 0x0D \<or> c = 0x20 \<or> c = 0xA0 \<or>
     c = 0x1680 \<or> (0x2000 \<le> c \<and> c \<le> 0x200A) \<or> c = 0x2028 \<or> c = 0x2029 \<or>
     c = 0x202F \<or> c = 0x205F \<or> c = 0x3000 \<or> c = 0xFEFF"

definition trim :: "jsstring \<Rightarrow> jsstring" where
  "trim s = rev (dropWhile isTrimWhitespace (rev (dropWhile isTrimWhitespace s)))"


section \<open>JSON values and \<open>JSON.parse\<close>\<close>

text \<open>
  The values \<open>JSON.parse\<close> can produce. An object is the list of its own properties
  in creation order, with distinct keys. A number carries the mathematical value of
  its literal; the rounding to a double is visible to this program only through the
  zero test of \<open>ToBoolean\<close> (see \<open>toBoolean\<close>).
\<close>

datatype jsvalue =
    JNull
  | JBool bool
  | JNum rat
  | JStr jsstring
  | JArr "jsvalue list"
  | JObj "(jsstring \<times> jsvalue) list"

text \<open>The outcome of a parsing function: a value and the rest of the input, or a failure.\<close>

datatype 'a parse = Parsed 'a jsstring | SyntaxError | OutOfFuel

definition isJSONWhitespace :: "codeunit \<Rightarrow> bool" where
  "isJSONWhitespace c \<longleftrightarrow> c = 0x09 \<or> c = 0x0A \<or> c = 0x0D \<or> c = 0x20"

definition skipWs :: "jsstring \<Rightarrow> jsstring" where
  "skipWs s = dropWhile isJSONWhitespace s"

definition isDigit :: "codeunit \<Rightarrow> bool" where
  "isDigit c \<longleftrightarrow> 0x30 \<le> c \<and> c \<le> 0x39"

definition digitsValue :: "jsstring \<Rightarrow> int" where
  "digitsValue ds = foldl (\<lambda>a d. 10 * a + (uint d - 48)) 0 ds"

definition hexValue :: "codeunit \<Rightarrow> nat option" where
  "hexValue c =
     (if 0x30 \<le> c \<and> c \<le> 0x39 then Some (unat c - 48)
      else if 0x41 \<le> c \<and> c \<le> 0x46 then Some (unat c - 55)
      else if 0x61 \<le> c \<and> c \<le> 0x66 then Some (unat c - 87)
      else None)"

definition hex4 :: "codeunit \<Rightarrow> codeunit \<Rightarrow> codeunit \<Rightarrow> codeunit \<Rightarrow> codeunit option" where
  "hex4 a b c d =
     (case (hexValue a, hexValue b, hexValue c, hexValue d) of
        (Some x, Some y, Some z, Some w) \<Rightarrow> Some (of_nat (((x * 16 + y) * 16 + z) * 16 + w))
      | _ \<Rightarrow> None)"

text \<open>The single-character escapes of a JSON string: \<open>\" \\ \/ \b \f \n \r \t\<close>.\<close>

definition escapeValue :: "codeunit \<Rightarrow> codeunit option" where
  "escapeValue e =
     (if e = 0x22 then Some 0x22
      else if e = 0x5C then Some 0x5C
      else if e = 0x2F then Some 0x2F
      else if e = 0x62 then Some 0x08
      else if e = 0x66 then Some 0x0C
      else if e = 0x6E then Some 0x0A
      else if e = 0x72 then Some 0x0D
      else if e = 0x74 then Some 0x09
      else None)"

text \<open>
  The characters of a string literal, after its opening quote, up to and including the
  closing quote. Control characters below U+0020 must be escaped.
\<close>

fun parseChars :: "jsstring \<Rightarrow> jsstring \<Rightarrow> (jsstring \<times> jsstring) option" where
  "parseChars acc [] = None"
| "parseChars acc (c # cs) =
     (if c = 0x22 then Some (acc, cs)
      else if c = 0x5C then
        (case cs of
           [] \<Rightarrow> None
         | e # r \<Rightarrow>
             if e = 0x75 then
               (case r of
                  h1 # h2 # h3 # h4 # r' \<Rightarrow>
                    (case hex4 h1 h2 h3 h4 of
                       None \<Rightarrow> None
                     | Some u \<Rightarrow> parseChars (acc @ [u]) r')
                | _ \<Rightarrow> None)
             else
               (case escapeValue e of
                  None \<Rightarrow> None
                | Some x \<Rightarrow> parseChars (acc @ [x]) r))
      else if c < 0x20 then None
      else parseChars (acc @ [c]) cs)"

text \<open>
  A number literal: \<open>-? (0 | [1-9][0-9]*) (. [0-9]+)? ([eE] [+-]? [0-9]+)?\<close>.
  The result is the value of the literal and the rest of the input.
\<close>

definition parseNumber :: "jsstring \<Rightarrow> (rat \<times> jsstring) option" where
  "parseNumber s =
     (let negative = (s \<noteq> [] \<and> hd s = 0x2D);
          s1 = (if negative then tl s else s);
          ints = (if s1 \<noteq> [] \<and> hd s1 = 0x30 then [0x30] else takeWhile isDigit s1);
          s2 = drop (length ints) s1;
          hasFrac = (s2 \<noteq> [] \<and> hd s2 = 0x2E);
          fracs = (if hasFrac then takeWhile isDigit (tl s2) else []);
          s3 = (if hasFrac then drop (length fracs) (tl s2) else s2);
          hasExp = (s3 \<noteq> [] \<and> (hd s3 = 0x65 \<or> hd s3 = 0x45));
          s4 = (if hasExp then tl s3 else s3);
          expNegative = (hasExp \<and> s4 \<noteq> [] \<and> hd s4 = 0x2D);
          s5 = (if hasExp \<and> s4 \<noteq> [] \<and> (hd s4 = 0x2D \<or> hd s4 = 0x2B) then tl s4 else s4);
          exps = (if hasExp then takeWhile isDigit s5 else []);
          s6 = drop (length exps) s5;
          mantissa = digitsValue (ints @ fracs);
          up = (if expNegative then 0 else nat (digitsValue exps));
          down = (if expNegative then nat (digitsValue exps) else 0) + length fracs;
          magnitude = of_int mantissa * 10 ^ up / 10 ^ down
      in if ints = [] \<or> (hasFrac \<and> fracs = []) \<or> (hasExp \<and> exps = []) then None
         else Some (if negative then - magnitude else magnitude, s6))"

text \<open>
  Defining an own property of an object under construction: a repeated key keeps its
  place and takes the later value.
\<close>

fun createDataProperty :: "(jsstring \<times> jsvalue) list \<Rightarrow> jsstring \<Rightarrow> jsvalue \<Rightarrow> (jsstring \<times> jsvalue) list" where
  "createDataProperty [] k v = [(k, v)]"
| "createDataProperty ((k', v') # ps) k v =
     (if k' = k then (k, v) # ps else (k', v') # createDataProperty ps k v)"

text \<open>
  The recursive descent over the JSON grammar. Each call spends one unit of fuel;
  \<open>JSON_parse\<close> below supplies more than any input can use.
\<close>

fun parseValue :: "nat \<Rightarrow> jsstring \<Rightarrow> jsvalue parse"
  and parseElements :: "nat \<Rightarrow> jsvalue list \<Rightarrow> jsstring \<Rightarrow> jsvalue parse"
  and parseMembers :: "nat \<Rightarrow> (jsstring \<times> jsvalue) list \<Rightarrow> jsstring \<Rightarrow> jsvalue parse"
where
  "parseValue 0 s = OutOfFuel"
| "parseValue (Suc n) s =
     (case s of
        [] \<Rightarrow> SyntaxError
      | c # r \<Rightarrow>
          if c = 0x5B then
            (case skipWs r of
               [] \<Rightarrow> SyntaxError
             | d # r' \<Rightarrow> if d = 0x5D then Parsed (JArr []) r' else parseElements n [] (d # r'))
          else if c = 0x7B then
            (case skipWs r of
               [] \<Rightarrow> SyntaxError
             | d # r' \<Rightarrow> if d = 0x7D then Parsed (JObj []) r' else parseMembers n [] (d # r'))
          else if c = 0x22 then
            (case parseChars [] r of
               None \<Rightarrow> SyntaxError
             | Some (str, r') \<Rightarrow> Parsed (JStr str) r')
          else if take 4 s = U ''null'' then Parsed JNull (drop 4 s)
          else if take 4 s = U ''true'' then Parsed (JBool True) (drop 4 s)
          else if take 5 s = U ''false'' then Parsed (JBool False) (drop 5 s)
          else
            (case parseNumber s of
               None \<Rightarrow> SyntaxError
             | Some (q, r') \<Rightarrow> Parsed (JNum q) r'))"
| "parseElements 0 acc s = OutOfFuel"
| "parseElements (Suc n) acc s =
     (case parseValue n (skipWs s) of
        Parsed v r \<Rightarrow>
          (case skipWs r of
             [] \<Rightarrow> SyntaxError
           | d # r' \<Rightarrow>
               if d = 0x2C then parseElements n (acc @ [v]) r'
               else if d = 0x5D then Parsed (JArr (acc @ [v])) r'
               else SyntaxError)
      | SyntaxError \<Rightarrow> SyntaxError
      | OutOfFuel \<Rightarrow> OutOfFuel)"
| "parseMembers 0 acc s = OutOfFuel"
| "parseMembers (Suc n) acc s =
     (case skipWs s of
        [] \<Rightarrow> SyntaxError
      | c # r \<Rightarrow>
          if c \<noteq> 0x22 then SyntaxError
          else
            (case parseChars [] r of
               None \<Rightarrow> SyntaxError
             | Some (key, r1) \<Rightarrow>
                 (case skipWs r1 of
                    [] \<Rightarrow> SyntaxError
                  | d # r2 \<Rightarrow>
                      if d \<noteq> 0x3A then SyntaxError
                      else
                        (case parseValue n (skipWs r2) of
                           Parsed v r3 \<Rightarrow>
                             (case skipWs r3 of
                                [] \<Rightarrow> SyntaxError
                              | e # r4 \<Rightarrow>
                                  if e = 0x2C then parseMembers n (createDataProperty acc key v) r4
                                  else if e = 0x7D then Parsed (JObj (createDataProperty acc key v)) r4
                                  else SyntaxError)
                         | SyntaxError \<Rightarrow> SyntaxError
                         | OutOfFuel \<Rightarrow> OutOfFuel))))"

text \<open>
  \<open>JSON.parse(text)\<close>: one value between optional whitespace, and nothing after it.
  \<open>None\<close> is the SyntaxError that \<open>JSON.parse\<close> throws.
\<close>

definition JSON_parse :: "jsstring \<Rightarrow> jsvalue option" where
  "JSON_parse text =
     (case parseValue (2 * length text + 2) (skipWs text) of
        Parsed v r \<Rightarrow> if skipWs r = [] then Some v else None
      | SyntaxError \<Rightarrow> None
      | OutOfFuel \<Rightarrow> None)"


section \<open>Property reads and conversions on parsed values\<close>

text \<open>
  What the program can throw: an instance of \<open>Error\<close> (with the name of its class and
  its message), or any other value (with the text \<open>String(value)\<close> gives for it).
\<close>

datatype thrown = ErrorObject jsstring jsstring | OtherValue jsstring

text \<open>\<open>error instanceof Error ? error.message : String(error)\<close>\<close>

fun errorDetail :: "thrown \<Rightarrow> jsstring" where
  "errorDetail (ErrorObject name message) = message"
| "errorDetail (OtherValue text) = text"

text \<open>\<open>new Error(message)\<close>\<close>

definition newError :: "jsstring \<Rightarrow> thrown" where
  "newError message = ErrorObject (U ''Error'') message"

text \<open>
  The read \<open>v.name\<close> of a parsed value, for a name that no built-in prototype
  defines (the program reads \<open>dependentVar\<close> and \<open>independentVars\<close> only).
  The outer \<open>None\<close> is the TypeError of a read on \<open>null\<close>; \<open>Some None\<close> is
  \<open>undefined\<close>.
\<close>

fun getProperty :: "jsvalue \<Rightarrow> jsstring \<Rightarrow> jsvalue option option" where
  "getProperty JNull name = None"
| "getProperty (JObj props) name = Some (map_of props name)"
| "getProperty v name = Some None"

text \<open>
  \<open>ToBoolean\<close>, on \<open>undefined\<close> (\<open>None\<close>) or a parsed value. A number is falsy
  when its double is zero: the literal's value rounds to zero exactly when its
  magnitude is at most \<open>2 ^ -1075\<close>, half the least positive double.
\<close>

fun toBoolean :: "jsvalue option \<Rightarrow> bool" where
  "toBoolean None = False"
| "toBoolean (Some JNull) = False"
| "toBoolean (Some (JBool b)) = b"
| "toBoolean (Some (JNum q)) = (\<not> \<bar>q\<bar> \<le> 1 / 2 ^ 1075)"
| "toBoolean (Some (JStr s)) = (s \<noteq> [])"
| "toBoolean (Some (JArr xs)) = True"
| "toBoolean (Some (JObj props)) = True"

text \<open>\<open>Array.isArray\<close>\<close>

fun isArray :: "jsvalue option \<Rightarrow> bool" where
  "isArray (Some (JArr xs)) = True"
| "isArray v = False"


section \<open>The remote service and the environment of the module\<close>

text \<open>The \<open>responseSchema\<close> of a request, with the descriptions the source gives.\<close>

datatype schema =
    StringSchema "jsstring option"
  | ArraySchema schema "jsstring option"
  | ObjectSchema "(jsstring \<times> schema) list" "jsstring list"

record config =
  responseMimeType :: jsstring
  responseSchema :: schema

text \<open>The argument of \<open>ai.models.generateContent\<close>.\<close>

record request =
  model :: jsstring
  contents :: jsstring
  config :: "config option"

text \<open>
  What the module takes from outside. \<open>API_KEY\<close> is \<open>process.env.API_KEY\<close>
  (\<open>None\<close> when the variable is not set). \<open>generateContent\<close> is the outcome of the
  remote call for a request: the error it rejects with, or \<open>response.text\<close>, which the
  source takes to be a string. \<open>stringifyStats\<close> and \<open>stringifyRows\<close> are
  \<open>JSON.stringify(\<cdot>, null, 2)\<close> on \<open>DescriptiveStats\<close> and on \<open>DataRow[]\<close>; both
  types come from \<open>../types\<close> and stay abstract here; on values of these types
  (records of scalars) the serialization always yields a text. \<open>syntaxErrorMessage\<close> is the
  message of the SyntaxError \<open>JSON.parse\<close> throws for a text and \<open>typeErrorMessage\<close>
  the message of the TypeError for reading the named property of \<open>null\<close>; the
  language leaves both texts to the engine.
\<close>

record ('stats, 'row) env =
  API_KEY :: "jsstring option"
  generateContent :: "request \<Rightarrow> thrown + jsstring"
  stringifyStats :: "'stats \<Rightarrow> jsstring"
  stringifyRows :: "'row list \<Rightarrow> jsstring"
  syntaxErrorMessage :: "jsstring \<Rightarrow> jsstring"
  typeErrorMessage :: "jsstring \<Rightarrow> jsstring"

text \<open>
  The effects of a call: the requests sent to the remote service, in order, and the
  lines written with \<open>console.error\<close>.
\<close>

record world =
  network :: "request list"
  console :: "(jsstring \<times> thrown) list"

text \<open>\<open>!API_KEY\<close> holds for an unset variable and for the empty string.\<close>

fun credentialMissing :: "jsstring option \<Rightarrow> bool" where
  "credentialMissing None = True"
| "credentialMissing (Some key) = (key = [])"

text \<open>
  Loading the module writes one warning with \<open>console.warn\<close> when the key is
  missing; the client \<open>ai\<close> is built either way.
\<close>

definition moduleLoad :: "jsstring option \<Rightarrow> jsstring list" where
  "moduleLoad key =
     (if credentialMissing key then [U ''API_KEY for Gemini is not set in environment variables.'']
      else [])"


section \<open>\<open>getDatasetInsights\<close>\<close>

definition insightsPromptPart1 :: jsstring where
  "insightsPromptPart1 = concat
     [U ''\<newline>'',
      U ''    Eres un analista de datos experto. Tu tarea es proporcionar un an'', [0xE1], U ''lisis conciso y '', [0xFA], U ''til de un conjunto de datos para la predicci'', [0xF3], U ''n de ventas.\<newline>'',
      U ''\<newline>'',
      U ''    Aqu'', [0xED], U '' est'', [0xE1], U '' la informaci'', [0xF3], U ''n del conjunto de datos:\<newline>'',
      U ''    1.  **Columnas**: '']"

definition insightsPromptPart2 :: jsstring where
  "insightsPromptPart2 = concat
     [U ''\<newline>'',
      U ''    2.  **Estad'', [0xED], U ''sticas Descriptivas (para columnas num'', [0xE9], U ''ricas)**:\<newline>'',
      U ''        ```json\<newline>'',
      U ''        '']"

definition insightsPromptPart3 :: jsstring where
  "insightsPromptPart3 = concat
     [U ''\<newline>'',
      U ''        ```\<newline>'',
      U ''    3.  **Primeras 5 filas de datos**:\<newline>'',
      U ''        ```json\<newline>'',
      U ''        '']"

definition insightsPromptPart4 :: jsstring where
  "insightsPromptPart4 = concat
     [U ''\<newline>'',
      U ''        ```\<newline>'',
      U ''\<newline>'',
      U ''    Por favor, proporciona un an'', [0xE1], U ''lisis que incluya:\<newline>'',
      U ''    -   Una breve descripci'', [0xF3], U ''n general de los datos.\<newline>'',
      U ''    -   Posibles relaciones o patrones interesantes que observes entre las variables.\<newline>'',
      U ''    -   Recomendaciones sobre qu'', [0xE9], U '' variables podr'', [0xED], U ''an ser buenos predictores para un modelo de regresi'', [0xF3], U ''n.\<newline>'',
      U ''    -   Advertencias sobre posibles problemas como multicolinealidad, valores at'', [0xED], U ''picos (outliers) o la necesidad de transformar alguna variable.\<newline>'',
      U ''\<newline>'',
      U ''    Formatea tu respuesta en Markdown para una f'', [0xE1], U ''cil lectura. S'', [0xE9], U '' claro, conciso y orientado a la acci'', [0xF3], U ''n.\<newline>'',
      U ''    '']"

definition insightsPrompt :: "jsstring list \<Rightarrow> jsstring \<Rightarrow> jsstring \<Rightarrow> jsstring" where
  "insightsPrompt headers statsString sampleDataString =
     insightsPromptPart1 @ join (U '', '') headers @
     insightsPromptPart2 @ statsString @
     insightsPromptPart3 @ sampleDataString @
     insightsPromptPart4"

definition insightsRequest :: "jsstring \<Rightarrow> request" where
  "insightsRequest prompt = \<lparr>model = U ''gemini-2.5-flash'', contents = prompt, config = None\<rparr>"

definition insightsNoCredential :: jsstring where
  "insightsNoCredential =
     U ''Error: La clave API de Gemini no est'' @ [0xE1] @ U '' configurada. Por favor, config'' @
     [0xFA] @ U ''rela en las variables de entorno.''"

definition insightsErrorPrefix :: jsstring where
  "insightsErrorPrefix =
     U ''Error al contactar la API de Gemini. Por favor, revisa la consola para m'' @ [0xE1] @
     U ''s detalles. Detalles: ''"

definition getDatasetInsights ::
  "('stats, 'row) env \<Rightarrow> jsstring list \<Rightarrow> 'stats \<Rightarrow> 'row list \<Rightarrow> world \<Rightarrow> (thrown + jsstring) \<times> world"
where
  "getDatasetInsights e headers stats sampleData w =
     (if credentialMissing (API_KEY e) then (Inr insightsNoCredential, w)
      else
        let statsString = stringifyStats e stats;
            sampleDataString = stringifyRows e sampleData;
            prompt = insightsPrompt headers statsString sampleDataString;
            sent = w\<lparr>network := network w @ [insightsRequest prompt]\<rparr>
        in case generateContent e (insightsRequest prompt) of
             Inr text \<Rightarrow> (Inr text, sent)
           | Inl error \<Rightarrow>
               (Inr (insightsErrorPrefix @ errorDetail error),
                sent\<lparr>console := console sent @ [(U ''Error calling Gemini API:'', error)]\<rparr>))"


section \<open>\<open>getVariableSuggestions\<close>\<close>

definition suggestionsPromptPart1 :: jsstring where
  "suggestionsPromptPart1 = concat
     [U ''\<newline>'',
      U ''    Analiza los siguientes encabezados de columnas y datos de muestra de un conjunto de datos.\<newline>'',
      U ''    Tu tarea es actuar como un cient'', [0xED], U ''fico de datos y sugerir la mejor variable dependiente (objetivo) y las mejores variables independientes (predictores) para construir un modelo de predicci'', [0xF3], U ''n de ventas.\<newline>'',
      U ''\<newline>'',
      U ''    La variable dependiente debe ser la que probablemente represente las ventas (ej. 'ventas', 'ingresos', 'unidades_vendidas').\<newline>'',
      U ''    Las variables independientes deben ser aquellas que l'', [0xF3], U ''gicamente podr'', [0xED], U ''an influir en la variable de ventas.\<newline>'',
      U ''\<newline>'',
      U ''    Encabezados: '']"

definition suggestionsPromptPart2 :: jsstring where
  "suggestionsPromptPart2 = concat
     [U ''\<newline>'',
      U ''\<newline>'',
      U ''    Primeras 5 filas de datos de muestra:\<newline>'',
      U ''    ```json\<newline>'',
      U ''    '']"

definition suggestionsPromptPart3 :: jsstring where
  "suggestionsPromptPart3 = concat
     [U ''\<newline>'',
      U ''    ```\<newline>'',
      U ''\<newline>'',
      U ''    Devuelve tu sugerencia '', [0xFA], U ''nicamente en formato JSON.\<newline>'',
      U ''    '']"

definition suggestionsPrompt :: "jsstring list \<Rightarrow> jsstring \<Rightarrow> jsstring" where
  "suggestionsPrompt headers sampleDataString =
     suggestionsPromptPart1 @ join (U '', '') headers @
     suggestionsPromptPart2 @ sampleDataString @
     suggestionsPromptPart3"

definition suggestionsSchema :: schema where
  "suggestionsSchema =
     ObjectSchema
       [(U ''dependentVar'',
         StringSchema
           (Some (U ''El nombre de la columna que mejor representa la variable dependiente (ej. ventas).''))),
        (U ''independentVars'',
         ArraySchema (StringSchema None)
           (Some (U ''Una lista de nombres de columnas que son buenos predictores para la variable dependiente.'')))]
       [U ''dependentVar'', U ''independentVars'']"

definition suggestionsRequest :: "jsstring \<Rightarrow> request" where
  "suggestionsRequest prompt =
     \<lparr>model = U ''gemini-2.5-flash'', contents = prompt,
      config = Some \<lparr>responseMimeType = U ''application/json'', responseSchema = suggestionsSchema\<rparr>\<rparr>"

definition suggestionsNoCredential :: jsstring where
  "suggestionsNoCredential = U ''La clave API de Gemini no est'' @ [0xE1] @ U '' configurada.''"

definition unexpectedShape :: jsstring where
  "unexpectedShape = U ''La respuesta de la IA no tiene el formato esperado.''"

definition suggestionsErrorPrefix :: jsstring where
  "suggestionsErrorPrefix = U ''Error al obtener sugerencias de la IA. Detalles: ''"

text \<open>
  \<open>!suggestions.dependentVar || !Array.isArray(suggestions.independentVars)\<close> and the
  \<open>throw\<close> or \<open>return\<close> after it. The second read happens only when the first
  operand is false.
\<close>

definition validateSuggestions :: "('stats, 'row) env \<Rightarrow> jsvalue \<Rightarrow> thrown + jsvalue" where
  "validateSuggestions e suggestions =
     (case getProperty suggestions (U ''dependentVar'') of
        None \<Rightarrow> Inl (ErrorObject (U ''TypeError'') (typeErrorMessage e (U ''dependentVar'')))
      | Some dependentVar \<Rightarrow>
          if \<not> toBoolean dependentVar then Inl (newError unexpectedShape)
          else
            (case getProperty suggestions (U ''independentVars'') of
               None \<Rightarrow> Inl (ErrorObject (U ''TypeError'') (typeErrorMessage e (U ''independentVars'')))
             | Some independentVars \<Rightarrow>
                 if \<not> isArray independentVars then Inl (newError unexpectedShape)
                 else Inr suggestions))"

text \<open>The body of the \<open>try\<close> block, from the answer of the remote call on.\<close>

definition suggestionsFromResponse :: "('stats, 'row) env \<Rightarrow> thrown + jsstring \<Rightarrow> thrown + jsvalue" where
  "suggestionsFromResponse e response =
     (case response of
        Inl error \<Rightarrow> Inl error
      | Inr text \<Rightarrow>
          let jsonText = trim text
          in case JSON_parse jsonText of
               None \<Rightarrow> Inl (ErrorObject (U ''SyntaxError'') (syntaxErrorMessage e jsonText))
             | Some suggestions \<Rightarrow> validateSuggestions e suggestions)"

definition getVariableSuggestions ::
  "('stats, 'row) env \<Rightarrow> jsstring list \<Rightarrow> 'row list \<Rightarrow> world \<Rightarrow> (thrown + jsvalue) \<times> world"
where
  "getVariableSuggestions e headers sampleData w =
     (if credentialMissing (API_KEY e) then (Inl (newError suggestionsNoCredential), w)
      else
        let sampleDataString = stringifyRows e (take 5 sampleData);
            prompt = suggestionsPrompt headers sampleDataString;
            sent = w\<lparr>network := network w @ [suggestionsRequest prompt]\<rparr>
        in case suggestionsFromResponse e (generateContent e (suggestionsRequest prompt)) of
             Inr suggestions \<Rightarrow> (Inr suggestions, sent)
           | Inl error \<Rightarrow>
               (Inl (newError (suggestionsErrorPrefix @ errorDetail error)),
                sent\<lparr>console := console sent @ [(U ''Error calling Gemini API for suggestions:'', error)]\<rparr>))"


section \<open>Worked examples\<close>

text \<open>
  An environment for the examples: the remote call has the same outcome for every
  request, statistics are given as their text, a row is given as its text, and the
  two engine messages are fixed.
\<close>

definition exampleEnv :: "jsstring option \<Rightarrow> thrown + jsstring \<Rightarrow> (jsstring, jsstring) env" where
  "exampleEnv key outcome =
     \<lparr>API_KEY = key,
      generateContent = (\<lambda>request. outcome),
      stringifyStats = (\<lambda>stats. stats),
      stringifyRows = (\<lambda>rows. U ''['' @ join (U '','') rows @ U '']''),
      syntaxErrorMessage = (\<lambda>jsonText. U ''Unexpected token''),
      typeErrorMessage =
        (\<lambda>name. U ''Cannot read properties of null (reading '' @ [0x27] @ name @ [0x27] @ U '')'')\<rparr>"

definition emptyWorld :: world where
  "emptyWorld = \<lparr>network = [], console = []\<rparr>"

definition exampleKey :: "jsstring option" where
  "exampleKey = Some (U ''secret'')"

definition salesText :: jsstring where
  \<open>salesText = U ''{"dependentVar":"sales","independentVars":["price","ad_spend"]}''\<close>

definition salesRecord :: jsvalue where
  "salesRecord =
     JObj [(U ''dependentVar'', JStr (U ''sales'')),
           (U ''independentVars'', JArr [JStr (U ''price''), JStr (U ''ad_spend'')])]"

definition missingDependentText :: jsstring where
  \<open>missingDependentText = U ''{"independentVars":["price"]}''\<close>

definition extraFieldText :: jsstring where
  \<open>extraFieldText = U ''{"dependentVar":"sales","independentVars":[],"extra":null}''\<close>

definition untypedText :: jsstring where
  \<open>untypedText = U ''{"dependentVar":42,"independentVars":[1,null,{}]}''\<close>

definition sixRows :: "jsstring list" where
  "sixRows = [U ''1'', U ''2'', U ''3'', U ''4'', U ''5'', U ''6'']"


section \<open>\<open>JSON.parse\<close> always answers\<close>

text \<open>
  Every parsing function leaves less input than it was given, so the fuel that
  \<open>JSON_parse\<close> supplies is never used up: \<open>None\<close> always stands for a text
  that is not JSON.
\<close>

lemma skipWs_length: "length (skipWs s) \<le> length s"
  by (simp add: skipWs_def length_dropWhile_le)

lemma skipWs_Cons_length: "skipWs s = c # r \<Longrightarrow> length r < length s"
  using skipWs_length [of s] by simp

lemma parseChars_length: "parseChars acc s = Some (str, r) \<Longrightarrow> length r < length s"
proof (induction acc s rule: parseChars.induct)
  case (1 acc)
  then show ?case by simp
next
  case (2 acc c cs)
  show ?case
  proof (cases "c = 0x22")
    case True
    with "2.prems" show ?thesis by simp
  next
    case q: False
    show ?thesis
    proof (cases "c = 0x5C")
      case True
      note bs = this
      show ?thesis
      proof (cases cs)
        case Nil
        with "2.prems" q bs show ?thesis by simp
      next
        case (Cons e r0)
        show ?thesis
        proof (cases "e = 0x75")
          case True
          from "2.prems" q bs Cons True obtain h1 h2 h3 h4 r' u where
            r0: "r0 = h1 # h2 # h3 # h4 # r'" and h: "hex4 h1 h2 h3 h4 = Some u"
            and p: "parseChars (acc @ [u]) r' = Some (str, r)"
            by (simp split: list.splits option.splits)
          from "2.IH"(1) [OF q bs Cons True r0 refl refl refl h p]
          show ?thesis using Cons r0 by simp
        next
          case False
          from "2.prems" q bs Cons False obtain x where
            x: "escapeValue e = Some x" and p: "parseChars (acc @ [x]) r0 = Some (str, r)"
            by (simp split: option.splits)
          from "2.IH"(2) [OF q bs Cons False x p]
          show ?thesis using Cons by simp
        qed
      qed
    next
      case False
      with "2.prems" q have "\<not> c < 0x20" and p: "parseChars (acc @ [c]) cs = Some (str, r)"
        by (simp_all split: if_splits)
      from "2.IH"(3) [OF q False this]
      show ?thesis by simp
    qed
  qed
qed

lemma parseNumber_length:
  assumes a: "parseNumber s = Some (q, r)"
  shows "length r < length s"
proof -
  define s1 where "s1 = (if s \<noteq> [] \<and> hd s = 0x2D then tl s else s)"
  define ints where "ints = (if s1 \<noteq> [] \<and> hd s1 = 0x30 then [0x30] else takeWhile isDigit s1)"
  define s2 where "s2 = drop (length ints) s1"
  define hasFrac where "hasFrac = (s2 \<noteq> [] \<and> hd s2 = 0x2E)"
  define fracs where "fracs = (if hasFrac then takeWhile isDigit (tl s2) else [])"
  define s3 where "s3 = (if hasFrac then drop (length fracs) (tl s2) else s2)"
  define hasExp where "hasExp = (s3 \<noteq> [] \<and> (hd s3 = 0x65 \<or> hd s3 = 0x45))"
  define s4 where "s4 = (if hasExp then tl s3 else s3)"
  define s5 where "s5 = (if hasExp \<and> s4 \<noteq> [] \<and> (hd s4 = 0x2D \<or> hd s4 = 0x2B) then tl s4 else s4)"
  define exps where "exps = (if hasExp then takeWhile isDigit s5 else [])"
  define s6 where "s6 = drop (length exps) s5"
  have "\<exists>v. parseNumber s =
      (if ints = [] \<or> (hasFrac \<and> fracs = []) \<or> (hasExp \<and> exps = []) then None else Some (v, s6))"
    unfolding parseNumber_def Let_def s6_def exps_def s5_def s4_def hasExp_def s3_def fracs_def
      hasFrac_def s2_def ints_def s1_def
    by (rule exI) (rule refl)
  with a have ne: "ints \<noteq> []" and r: "r = s6"
    by (auto split: if_splits)
  have l1: "length s1 \<le> length s" by (simp add: s1_def)
  have l2: "length ints \<le> length s1"
    by (cases s1) (simp_all add: ints_def length_takeWhile_le)
  have "length s2 < length s1" using l2 ne by (cases ints) (simp_all add: s2_def)
  moreover have "length s3 \<le> length s2" by (simp add: s3_def)
  moreover have "length s4 \<le> length s3" by (simp add: s4_def)
  moreover have "length s5 \<le> length s4" by (simp add: s5_def)
  moreover have "length s6 \<le> length s5" by (simp add: s6_def)
  ultimately show ?thesis using l1 r by simp
qed

lemma parse_consumes:
  "parseValue n s = Parsed v r \<Longrightarrow> length r < length s"
  "parseElements n acc s = Parsed v r \<Longrightarrow> length r < length s"
  "parseMembers n props s = Parsed v r \<Longrightarrow> length r < length s"
proof (induction n s and n acc s and n props s arbitrary: v r and v r and v r
    rule: parseValue_parseElements_parseMembers.induct)
  case (1 s)
  then show ?case by simp
next
  case (2 n s)
  from "2.prems" obtain c t where s: "s = c # t" by (cases s) simp_all
  show ?case
  proof (cases "c = 0x5B")
    case True
    with "2.prems" s obtain d r' where sk: "skipWs t = d # r'"
      by (cases "skipWs t") simp_all
    show ?thesis
    proof (cases "d = 0x5D")
      case True
      with "2.prems" s \<open>c = 0x5B\<close> sk have "r = r'" by simp
      with skipWs_Cons_length [OF sk] s show ?thesis by simp
    next
      case False
      with "2.prems" s \<open>c = 0x5B\<close> sk have "parseElements n [] (d # r') = Parsed v r" by simp
      from "2.IH"(1) [OF s \<open>c = 0x5B\<close> sk False this] skipWs_length [of t] sk s
      show ?thesis by simp
    qed
  next
    case nb: False
    show ?thesis
    proof (cases "c = 0x7B")
      case True
      with "2.prems" s nb obtain d r' where sk: "skipWs t = d # r'"
        by (cases "skipWs t") simp_all
      show ?thesis
      proof (cases "d = 0x7D")
        case True
        with "2.prems" s nb \<open>c = 0x7B\<close> sk have "r = r'" by simp
        with skipWs_Cons_length [OF sk] s show ?thesis by simp
      next
        case False
        with "2.prems" s nb \<open>c = 0x7B\<close> sk have "parseMembers n [] (d # r') = Parsed v r" by simp
        from "2.IH"(2) [OF s nb \<open>c = 0x7B\<close> sk False this] skipWs_length [of t] sk s
        show ?thesis by simp
      qed
    next
      case nc: False
      show ?thesis
      proof (cases "c = 0x22")
        case True
        with "2.prems" s nb nc obtain str where "parseChars [] t = Some (str, r)"
          by (auto split: option.splits)
        from parseChars_length [OF this] s show ?thesis by simp
      next
        case nq: False
        from "2.prems" s nb nc nq
        have "r = drop 4 s \<or> r = drop 5 s \<or> (\<exists>q. parseNumber s = Some (q, r))"
          by (auto split: if_splits option.splits)
        then show ?thesis using s by (auto dest: parseNumber_length)
      qed
    qed
  qed
next
  case (3 acc s)
  then show ?case by simp
next
  case (4 n acc s)
  from "4.prems" obtain v1 r1 where pv: "parseValue n (skipWs s) = Parsed v1 r1"
    by (cases "parseValue n (skipWs s)") simp_all
  from "4.prems" pv obtain d r' where sk: "skipWs r1 = d # r'"
    by (cases "skipWs r1") simp_all
  have l1: "length r1 < length s"
    using "4.IH"(1) [OF pv] skipWs_length [of s] by simp
  have l2: "length r' < length r1" by (rule skipWs_Cons_length [OF sk])
  show ?case
  proof (cases "d = 0x2C")
    case True
    with "4.prems" pv sk have "parseElements n (acc @ [v1]) r' = Parsed v r" by simp
    from "4.IH"(2) [OF pv sk True this] l1 l2 show ?thesis by simp
  next
    case False
    with "4.prems" pv sk have "r = r'" by (simp split: if_splits)
    with l1 l2 show ?thesis by simp
  qed
next
  case (5 props s)
  then show ?case by simp
next
  case (6 n props s)
  from "6.prems" obtain c t where sk0: "skipWs s = c # t"
    by (cases "skipWs s") simp_all
  from "6.prems" sk0 have c: "\<not> c \<noteq> 0x22" by (simp split: if_splits)
  from "6.prems" sk0 c obtain key r1 where pc: "parseChars [] t = Some (key, r1)"
    by (cases "parseChars [] t") auto
  from "6.prems" sk0 c pc obtain d r2 where sk1: "skipWs r1 = d # r2"
    by (cases "skipWs r1") simp_all
  from "6.prems" sk0 c pc sk1 have d: "\<not> d \<noteq> 0x3A" by (simp split: if_splits)
  from "6.prems" sk0 c pc sk1 d obtain v1 r3 where pv: "parseValue n (skipWs r2) = Parsed v1 r3"
    by (cases "parseValue n (skipWs r2)") simp_all
  from "6.prems" sk0 c pc sk1 d pv obtain e r4 where sk2: "skipWs r3 = e # r4"
    by (cases "skipWs r3") simp_all
  have l0: "length t < length s" by (rule skipWs_Cons_length [OF sk0])
  have l1: "length r1 < length t" by (rule parseChars_length [OF pc])
  have l2: "length r2 < length r1" by (rule skipWs_Cons_length [OF sk1])
  have l3: "length r3 < length r2"
    using "6.IH"(1) [OF sk0 c pc refl sk1 d pv] skipWs_length [of r2] by simp
  have l4: "length r4 < length r3" by (rule skipWs_Cons_length [OF sk2])
  show ?case
  proof (cases "e = 0x2C")
    case True
    with "6.prems" sk0 c pc sk1 d pv sk2
    have "parseMembers n (createDataProperty props key v1) r4 = Parsed v r" by simp
    from "6.IH"(2) [OF sk0 c pc refl sk1 d pv sk2 True this] l0 l1 l2 l3 l4
    show ?thesis by simp
  next
    case False
    with "6.prems" sk0 c pc sk1 d pv sk2 have "r = r4" by (simp split: if_splits)
    with l0 l1 l2 l3 l4 show ?thesis by simp
  qed
qed

lemma parse_fuel:
  "2 * length s < n \<Longrightarrow> parseValue n s \<noteq> OutOfFuel"
  "2 * length s + 1 < n \<Longrightarrow> parseElements n acc s \<noteq> OutOfFuel"
  "2 * length s + 1 < n \<Longrightarrow> parseMembers n props s \<noteq> OutOfFuel"
proof (induction n s and n acc s and n props s
    rule: parseValue_parseElements_parseMembers.induct)
  case (1 s)
  then show ?case by simp
next
  case (2 n s)
  show ?case
  proof (cases s)
    case Nil
    then show ?thesis by simp
  next
    case (Cons c t)
    note s = this
    show ?thesis
    proof (cases "c = 0x5B")
      case True
      show ?thesis
      proof (cases "skipWs t")
        case Nil
        with s True show ?thesis by simp
      next
        case (Cons d r')
        note sk = this
        show ?thesis
        proof (cases "d = 0x5D")
          case True
          with s \<open>c = 0x5B\<close> sk show ?thesis by simp
        next
          case False
          have "2 * length (d # r') + 1 < n"
            using "2.prems" s skipWs_length [of t] sk by simp
          from "2.IH"(1) [OF s \<open>c = 0x5B\<close> sk False this]
          show ?thesis using s \<open>c = 0x5B\<close> sk False by simp
        qed
      qed
    next
      case nb: False
      show ?thesis
      proof (cases "c = 0x7B")
        case True
        show ?thesis
        proof (cases "skipWs t")
          case Nil
          with s nb True show ?thesis by simp
        next
          case (Cons d r')
          note sk = this
          show ?thesis
          proof (cases "d = 0x7D")
            case True
            with s nb \<open>c = 0x7B\<close> sk show ?thesis by simp
          next
            case False
            have "2 * length (d # r') + 1 < n"
              using "2.prems" s skipWs_length [of t] sk by simp
            from "2.IH"(2) [OF s nb \<open>c = 0x7B\<close> sk False this]
            show ?thesis using s nb \<open>c = 0x7B\<close> sk False by simp
          qed
        qed
      next
        case False
        with s nb show ?thesis
          by (simp split: option.splits)
      qed
    qed
  qed
next
  case (3 acc s)
  then show ?case by simp
next
  case (4 n acc s)
  have f1: "2 * length (skipWs s) < n"
    using "4.prems" skipWs_length [of s] by simp
  show ?case
  proof (cases "parseValue n (skipWs s)")
    case (Parsed v1 r1)
    note pv = this
    have l1: "length r1 < length s"
      using parse_consumes(1) [OF pv] skipWs_length [of s] by simp
    show ?thesis
    proof (cases "skipWs r1")
      case Nil
      with pv show ?thesis by simp
    next
      case (Cons d r')
      note sk = this
      have l2: "length r' < length r1" by (rule skipWs_Cons_length [OF sk])
      show ?thesis
      proof (cases "d = 0x2C")
        case True
        have "2 * length r' + 1 < n" using "4.prems" l1 l2 by simp
        from "4.IH"(2) [OF pv sk True this]
        show ?thesis using pv sk True by simp
      next
        case False
        with pv sk show ?thesis by simp
      qed
    qed
  next
    case SyntaxError
    then show ?thesis by simp
  next
    case OutOfFuel
    with "4.IH"(1) [OF f1] show ?thesis by simp
  qed
next
  case (5 props s)
  then show ?case by simp
next
  case (6 n props s)
  show ?case
  proof (cases "skipWs s")
    case Nil
    then show ?thesis by simp
  next
    case (Cons c t)
    note sk0 = this
    have l0: "length t < length s" by (rule skipWs_Cons_length [OF sk0])
    show ?thesis
    proof (cases "c \<noteq> 0x22")
      case True
      with sk0 show ?thesis by simp
    next
      case False
      note c = this
      show ?thesis
      proof (cases "parseChars [] t")
        case None
        with sk0 c show ?thesis by simp
      next
        case (Some kr)
        obtain key r1 where kr: "kr = (key, r1)" by (cases kr)
        note pc = Some [unfolded kr]
        have l1: "length r1 < length t" by (rule parseChars_length [OF pc])
        show ?thesis
        proof (cases "skipWs r1")
          case Nil
          with sk0 c pc show ?thesis by simp
        next
          case (Cons d r2)
          note sk1 = this
          have l2: "length r2 < length r1" by (rule skipWs_Cons_length [OF sk1])
          show ?thesis
          proof (cases "d \<noteq> 0x3A")
            case True
            with sk0 c pc sk1 show ?thesis by simp
          next
            case False
            note d = this
            have f1: "2 * length (skipWs r2) < n"
              using "6.prems" l0 l1 l2 skipWs_length [of r2] by simp
            show ?thesis
            proof (cases "parseValue n (skipWs r2)")
              case (Parsed v1 r3)
              note pv = this
              have l3: "length r3 < length r2"
                using parse_consumes(1) [OF pv] skipWs_length [of r2] by simp
              show ?thesis
              proof (cases "skipWs r3")
                case Nil
                with sk0 c pc sk1 d pv show ?thesis by simp
              next
                case (Cons e r4)
                note sk2 = this
                have l4: "length r4 < length r3" by (rule skipWs_Cons_length [OF sk2])
                show ?thesis
                proof (cases "e = 0x2C")
                  case True
                  have "2 * length r4 + 1 < n" using "6.prems" l0 l1 l2 l3 l4 by simp
                  from "6.IH"(2) [OF sk0 c pc refl sk1 d pv sk2 True this]
                  show ?thesis using sk0 c pc sk1 d pv sk2 True by simp
                next
                  case False
                  with sk0 c pc sk1 d pv sk2 show ?thesis by simp
                qed
              qed
            next
              case SyntaxError
              with sk0 c pc sk1 d show ?thesis by simp
            next
              case OutOfFuel
              with "6.IH"(1) [OF sk0 c pc refl sk1 d f1] show ?thesis by simp
            qed
          qed
        qed
      qed
    qed
  qed
qed

lemma JSON_parse_fuel: "parseValue (2 * length t + 2) (skipWs t) \<noteq> OutOfFuel"
  using skipWs_length [of t] by (intro parse_fuel(1)) simp

text \<open>
  Fuel beyond what a call uses does not change its answer, so the amount that
  \<open>JSON_parse\<close> supplies is immaterial.
\<close>

lemma parse_more_fuel:
  "parseValue n s \<noteq> OutOfFuel \<Longrightarrow> parseValue (Suc n) s = parseValue n s"
  "parseElements n acc s \<noteq> OutOfFuel \<Longrightarrow> parseElements (Suc n) acc s = parseElements n acc s"
  "parseMembers n props s \<noteq> OutOfFuel \<Longrightarrow> parseMembers (Suc n) props s = parseMembers n props s"
proof (induction n s and n acc s and n props s
    rule: parseValue_parseElements_parseMembers.induct)
  case (1 s)
  then show ?case by simp
next
  case (2 n s)
  show ?case
  proof (cases s)
    case Nil
    then show ?thesis by simp
  next
    case (Cons c t)
    note s = this
    show ?thesis
    proof (cases "skipWs t")
      case Nil
      with s show ?thesis by simp
    next
      case (Cons d r')
      note sk = this
      consider (arr) "c = 0x5B" "d \<noteq> 0x5D" | (obj) "c \<noteq> 0x5B" "c = 0x7B" "d \<noteq> 0x7D"
        | (other) "c = 0x5B \<and> d = 0x5D \<or> c \<noteq> 0x5B \<and> c = 0x7B \<and> d = 0x7D \<or> c \<noteq> 0x5B \<and> c \<noteq> 0x7B"
        by blast
      then show ?thesis
      proof cases
        case arr
        with "2.prems" s sk have "parseElements n [] (d # r') \<noteq> OutOfFuel" by simp
        from "2.IH"(1) [OF s arr(1) sk arr(2) this]
        show ?thesis using s sk arr by simp
      next
        case obj
        with "2.prems" s sk have "parseMembers n [] (d # r') \<noteq> OutOfFuel" by simp
        from "2.IH"(2) [OF s obj(1) obj(2) sk obj(3) this]
        show ?thesis using s sk obj by simp
      next
        case other
        then show ?thesis using s sk by auto
      qed
    qed
  qed
next
  case (3 acc s)
  then show ?case by simp
next
  case (4 n acc s)
  from "4.prems" have nf: "parseValue n (skipWs s) \<noteq> OutOfFuel"
    by (auto split: parse.splits)
  note same = "4.IH"(1) [OF nf]
  show ?case
  proof (cases "parseValue n (skipWs s)")
    case (Parsed v1 r1)
    note pv = this
    show ?thesis
    proof (cases "skipWs r1")
      case Nil
      with pv same show ?thesis by simp
    next
      case (Cons d r')
      note sk = this
      show ?thesis
      proof (cases "d = 0x2C")
        case True
        with "4.prems" pv sk have "parseElements n (acc @ [v1]) r' \<noteq> OutOfFuel" by simp
        from "4.IH"(2) [OF pv sk True this]
        show ?thesis using pv sk True same by simp
      next
        case False
        with pv sk same show ?thesis by simp
      qed
    qed
  next
    case SyntaxError
    with same show ?thesis by simp
  next
    case OutOfFuel
    with nf show ?thesis by simp
  qed
next
  case (5 props s)
  then show ?case by simp
next
  case (6 n props s)
  show ?case
  proof (cases "skipWs s")
    case Nil
    then show ?thesis by simp
  next
    case (Cons c t)
    note sk0 = this
    show ?thesis
    proof (cases "c \<noteq> 0x22")
      case True
      with sk0 show ?thesis by simp
    next
      case False
      note c = this
      show ?thesis
      proof (cases "parseChars [] t")
        case None
        with sk0 c show ?thesis by simp
      next
        case (Some kr)
        obtain key r1 where kr: "kr = (key, r1)" by (cases kr)
        from Some kr have pc: "parseChars [] t = Some (key, r1)" by simp
        show ?thesis
        proof (cases "skipWs r1")
          case Nil
          with sk0 c pc show ?thesis by simp
        next
          case (Cons d r2)
          note sk1 = this
          show ?thesis
          proof (cases "d \<noteq> 0x3A")
            case True
            with sk0 c pc sk1 show ?thesis by simp
          next
            case False
            note d = this
            from "6.prems" sk0 c pc sk1 d have nf: "parseValue n (skipWs r2) \<noteq> OutOfFuel"
              by (auto split: parse.splits)
            note same = "6.IH"(1) [OF sk0 c pc refl sk1 d nf]
            show ?thesis
            proof (cases "parseValue n (skipWs r2)")
              case (Parsed v1 r3)
              note pv = this
              show ?thesis
              proof (cases "skipWs r3")
                case Nil
                with sk0 c pc sk1 d pv same show ?thesis by simp
              next
                case (Cons e r4)
                note sk2 = this
                show ?thesis
                proof (cases "e = 0x2C")
                  case True
                  with "6.prems" sk0 c pc sk1 d pv sk2
                  have "parseMembers n (createDataProperty props key v1) r4 \<noteq> OutOfFuel" by simp
                  from "6.IH"(2) [OF sk0 c pc refl sk1 d pv sk2 True this]
                  show ?thesis using sk0 c pc sk1 d pv sk2 True same by simp
                next
                  case False
                  with sk0 c pc sk1 d pv sk2 same show ?thesis by simp
                qed
              qed
            next
              case SyntaxError
              with sk0 c pc sk1 d same show ?thesis by simp
            next
              case OutOfFuel
              with nf show ?thesis by simp
            qed
          qed
        qed
      qed
    qed
  qed
qed

lemma parseValue_fuel_irrelevant:
  assumes "2 * length s < n" and "n \<le> m"
  shows "parseValue m s = parseValue n s"
  using assms(2)
proof (induction m)
  case 0
  then show ?case by simp
next
  case (Suc m)
  show ?case
  proof (cases "n = Suc m")
    case True
    then show ?thesis by simp
  next
    case False
    with Suc.prems have le: "n \<le> m" by simp
    then have "2 * length s < m" using assms(1) by simp
    then have "parseValue m s \<noteq> OutOfFuel" by (rule parse_fuel(1))
    then have "parseValue (Suc m) s = parseValue m s" by (rule parse_more_fuel(1))
    with Suc.IH [OF le] show ?thesis by simp
  qed
qed


section \<open>The platform functions on examples\<close>

text \<open>
  \<open>JSON.parse\<close> on whitespace, a repeated key, number forms and escapes; the texts
  it rejects (a trailing comma, an unquoted key, a leading zero, a bare fraction or
  sign, a cut literal, text after the value, a raw control character, an unknown
  escape, a no-break space); \<open>trim\<close>; and \<open>ToBoolean\<close>.
\<close>

lemma JSON_parse_examples:
  \<open>JSON_parse (U '' { "a" : [ 1 , true , null ] , "b" : { } } '') =
     Some (JObj [(U ''a'', JArr [JNum 1, JBool True, JNull]), (U ''b'', JObj [])])\<close>
  \<open>JSON_parse (U ''{"a":1,"b":2,"a":3}'') = Some (JObj [(U ''a'', JNum 3), (U ''b'', JNum 2)])\<close>
  \<open>JSON_parse (U ''[-0, 0.0, 12e2, 25E-1]'') = Some (JArr [JNum 0, JNum 0, JNum 1200, JNum (5 / 2)])\<close>
  \<open>JSON_parse (U ''"a'' @ [0x5C] @ U ''n'' @ [0x5C] @ U ''u00e1'' @ [0x5C] @ U ''""'') =
     Some (JStr (U ''a'' @ [0x0A, 0xE1, 0x22]))\<close>
  by code_simp+

lemma JSON_parse_rejects:
  \<open>JSON_parse (U '''') = None\<close>
  \<open>JSON_parse (U ''[1,]'') = None\<close>
  \<open>JSON_parse (U ''{"a":1,}'') = None\<close>
  \<open>JSON_parse (U ''{a:1}'') = None\<close>
  \<open>JSON_parse (U ''01'') = None\<close>
  \<open>JSON_parse (U ''1.'') = None\<close>
  \<open>JSON_parse (U ''.5'') = None\<close>
  \<open>JSON_parse (U ''+1'') = None\<close>
  \<open>JSON_parse (U ''nul'') = None\<close>
  \<open>JSON_parse (U ''{} x'') = None\<close>
  \<open>JSON_parse (U ''"a'' @ [0x0A] @ U ''"'') = None\<close>
  \<open>JSON_parse (U ''"a'' @ [0x5C] @ U ''x"'') = None\<close>
  \<open>JSON_parse ([0xA0] @ U ''1'') = None\<close>
  by code_simp+

lemma trim_examples:
  "trim ([0xFEFF, 0x20, 0xA0, 0x0A] @ U ''a b'' @ [0x2028, 0x09, 0x3000, 0x0D]) = U ''a b''"
  "trim [0x20, 0x0A] = []"
  "trim ([0x85] @ U ''a'' @ [0x200B]) = [0x85] @ U ''a'' @ [0x200B]"
  by code_simp+

lemma toBoolean_examples:
  "\<not> toBoolean None" "\<not> toBoolean (Some JNull)" "\<not> toBoolean (Some (JNum 0))"
  "\<not> toBoolean (Some (JStr []))" "\<not> toBoolean (Some (JBool False))"
  "toBoolean (Some (JNum 42))" "toBoolean (Some (JStr (U ''0'')))"
  "toBoolean (Some (JArr []))" "toBoolean (Some (JObj []))"
  by (simp_all add: U_def)


section \<open>Facts shared by the claims\<close>

text \<open>
  With a credential configured, \<open>getVariableSuggestions\<close> sends one request and its
  outcome is that of the \<open>try\<close> block, with whatever was thrown there wrapped in a
  new \<open>Error\<close>.
\<close>

lemma getVariableSuggestions_outcome:
  assumes "\<not> credentialMissing (API_KEY e)"
  shows "fst (getVariableSuggestions e headers sampleData w) =
    (case suggestionsFromResponse e
       (generateContent e
         (suggestionsRequest (suggestionsPrompt headers (stringifyRows e (take 5 sampleData))))) of
       Inr suggestions \<Rightarrow> Inr suggestions
     | Inl error \<Rightarrow> Inl (newError (suggestionsErrorPrefix @ errorDetail error)))"
  using assms by (simp add: getVariableSuggestions_def Let_def split: sum.splits)

lemma getVariableSuggestions_network:
  assumes "\<not> credentialMissing (API_KEY e)"
  shows "network (snd (getVariableSuggestions e headers sampleData w)) =
    network w @ [suggestionsRequest (suggestionsPrompt headers (stringifyRows e (take 5 sampleData)))]"
  using assms by (simp add: getVariableSuggestions_def Let_def split: sum.splits)

lemma getDatasetInsights_network:
  assumes "\<not> credentialMissing (API_KEY e)"
  shows "network (snd (getDatasetInsights e headers stats sampleData w)) =
    network w @ [insightsRequest
      (insightsPrompt headers (stringifyStats e stats) (stringifyRows e sampleData))]"
  using assms by (simp add: getDatasetInsights_def Let_def split: sum.splits)

text \<open>The example environment, and what \<open>JSON.parse\<close> makes of the example texts.\<close>

lemma exampleEnv_simps:
  "API_KEY (exampleEnv key outcome) = key"
  "generateContent (exampleEnv key outcome) request = outcome"
  "syntaxErrorMessage (exampleEnv key outcome) jsonText = U ''Unexpected token''"
  by (simp_all add: exampleEnv_def)

lemma exampleKey_configured: "\<not> credentialMissing exampleKey"
  by (simp add: exampleKey_def U_def)

lemma parse_salesText: "JSON_parse (trim salesText) = Some salesRecord"
  by code_simp

lemma parse_missingDependentText:
  "JSON_parse (trim missingDependentText) =
     Some (JObj [(U ''independentVars'', JArr [JStr (U ''price'')])])"
  by code_simp

lemma parse_extraFieldText:
  "JSON_parse (trim extraFieldText) =
     Some (JObj [(U ''dependentVar'', JStr (U ''sales'')), (U ''independentVars'', JArr []),
                 (U ''extra'', JNull)])"
  by code_simp

lemma parse_untypedText:
  "JSON_parse (trim untypedText) =
     Some (JObj [(U ''dependentVar'', JNum 42),
                 (U ''independentVars'', JArr [JNum 1, JNull, JObj []])])"
  by code_simp

lemma parse_not_json: "JSON_parse (trim (U ''not json'')) = None"
  by code_simp

lemma parse_null: "JSON_parse (trim (U ''null'')) = Some JNull"
  by code_simp

text \<open>A property read fails on \<open>null\<close> and on nothing else.\<close>

lemma getProperty_null: "getProperty suggestions name = None \<longleftrightarrow> suggestions = JNull"
  by (cases suggestions) simp_all

lemma validate_examples:
  "validateSuggestions e (JObj [(U ''independentVars'', JArr [JStr (U ''price'')])]) =
     Inl (ErrorObject (U ''Error'') unexpectedShape)"
  "validateSuggestions e JNull =
     Inl (ErrorObject (U ''TypeError'') (typeErrorMessage e (U ''dependentVar'')))"
  by (simp_all add: validateSuggestions_def newError_def U_def)

lemma getProperty_examples:
  "getProperty (JObj [(U ''independentVars'', iv)]) (U ''dependentVar'') = Some None"
  "getProperty (JObj [(U ''independentVars'', iv)]) (U ''independentVars'') = Some (Some iv)"
  "getProperty (JObj ((U ''dependentVar'', dv) # props)) (U ''dependentVar'') = Some (Some dv)"
  "getProperty (JObj ((U ''dependentVar'', dv) # (U ''independentVars'', iv) # props))
     (U ''independentVars'') = Some (Some iv)"
  by (simp_all add: U_def)

lemma example_names:
  "U ''independentVars'' \<noteq> U ''dependentVar''"
  "U ''dependentVar'' \<noteq> U ''independentVars''"
  "U ''extra'' \<noteq> U ''dependentVar''"
  "U ''extra'' \<noteq> U ''independentVars''"
  "U ''sales'' \<noteq> []"
  by (simp_all add: U_def)

lemma typeError_text:
  "typeErrorMessage (exampleEnv key outcome) (U ''dependentVar'') =
     U ''Cannot read properties of null (reading '' @ [0x27] @ U ''dependentVar'' @ [0x27] @ U '')''"
  by (simp add: exampleEnv_def)

lemma typeError_text_differs:
  "U ''Cannot read properties of null (reading '' @ [0x27] @ U ''dependentVar'' @ [0x27] @ U '')''
     \<noteq> unexpectedShape"
  by (simp add: unexpectedShape_def U_def)


section \<open>Missing credential\<close>

text \<open>
  C1. When no credential is configured (\<open>API_KEY\<close> unset, or empty), for every headers,
  statistics and sample, \<open>getDatasetInsights\<close> returns, and does not raise, one fixed
  text that starts with the marker \<open>Error:\<close>, and sends no request: the world is
  left as it was.
\<close>

theorem getDatasetInsights_no_credential:
  assumes "credentialMissing (API_KEY e)"
  shows "getDatasetInsights e headers stats sampleData w = (Inr insightsNoCredential, w)
       \<and> take 6 insightsNoCredential = U ''Error:''
       \<and> network (snd (getDatasetInsights e headers stats sampleData w)) = network w"
  using assms by (simp add: getDatasetInsights_def insightsNoCredential_def U_def)

theorem getDatasetInsights_no_credential_witness:
  "credentialMissing (API_KEY (exampleEnv None (Inr salesText)))
   \<and> getDatasetInsights (exampleEnv None (Inr salesText)) [U ''price''] (U ''{}'') sixRows emptyWorld
       = (Inr insightsNoCredential, emptyWorld)"
  using getDatasetInsights_no_credential
    [of "exampleEnv None (Inr salesText)" "[U ''price'']" "U ''{}''" sixRows emptyWorld]
  by (simp add: exampleEnv_simps)

text \<open>
  C2. When no credential is configured, for every headers and sample,
  \<open>getVariableSuggestions\<close> raises an \<open>Error\<close> whose message says that the key is
  not configured; nothing is returned, and no request is sent before the raise.
\<close>

theorem getVariableSuggestions_no_credential:
  assumes "credentialMissing (API_KEY e)"
  shows "getVariableSuggestions e headers sampleData w =
           (Inl (ErrorObject (U ''Error'') suggestionsNoCredential), w)
       \<and> network (snd (getVariableSuggestions e headers sampleData w)) = network w"
  using assms by (simp add: getVariableSuggestions_def newError_def)

theorem getVariableSuggestions_no_credential_witness:
  "credentialMissing (API_KEY (exampleEnv None (Inr salesText)))
   \<and> getVariableSuggestions (exampleEnv None (Inr salesText)) [U ''price''] sixRows emptyWorld
       = (Inl (ErrorObject (U ''Error'') suggestionsNoCredential), emptyWorld)"
  using getVariableSuggestions_no_credential
    [of "exampleEnv None (Inr salesText)" "[U ''price'']" sixRows emptyWorld]
  by (simp add: exampleEnv_simps)

section \<open>Failures of the remote call\<close>

text \<open>
  C3. \<open>getDatasetInsights\<close> never raises: for every environment and input its result
  is a returned text (the two serializations are outside the \<open>try\<close> block, and on
  the typed inputs they do not fail). When the remote call raises an error with message
  \<open>m\<close>, the returned text is the fixed prefix, which starts with \<open>Error\<close>, followed
  by \<open>m\<close>.
\<close>

theorem getDatasetInsights_never_raises:
  "(\<exists>text. fst (getDatasetInsights e headers stats sampleData w) = Inr text)
   \<and> (\<not> credentialMissing (API_KEY e) \<and>
      generateContent e
        (insightsRequest
          (insightsPrompt headers (stringifyStats e stats) (stringifyRows e sampleData)))
        = Inl (ErrorObject name m)
      \<longrightarrow> fst (getDatasetInsights e headers stats sampleData w) = Inr (insightsErrorPrefix @ m)
          \<and> take 5 insightsErrorPrefix = U ''Error'')"
proof (intro conjI impI)
  show "\<exists>text. fst (getDatasetInsights e headers stats sampleData w) = Inr text"
  proof (cases "credentialMissing (API_KEY e)")
    case True
    then show ?thesis by (simp add: getDatasetInsights_def)
  next
    case False
    then show ?thesis
      by (cases "generateContent e
            (insightsRequest
              (insightsPrompt headers (stringifyStats e stats) (stringifyRows e sampleData)))")
        (simp_all add: getDatasetInsights_def Let_def)
  qed
next
  assume "\<not> credentialMissing (API_KEY e) \<and>
      generateContent e
        (insightsRequest
          (insightsPrompt headers (stringifyStats e stats) (stringifyRows e sampleData)))
        = Inl (ErrorObject name m)"
  then show "fst (getDatasetInsights e headers stats sampleData w) = Inr (insightsErrorPrefix @ m)"
    by (simp add: getDatasetInsights_def Let_def)
next
  show "take 5 insightsErrorPrefix = U ''Error''"
    by (simp add: insightsErrorPrefix_def U_def)
qed

theorem getDatasetInsights_never_raises_witness:
  "\<not> credentialMissing (API_KEY (exampleEnv exampleKey (Inl (ErrorObject (U ''Error'') (U ''fetch failed'')))))
   \<and> fst (getDatasetInsights (exampleEnv exampleKey (Inl (ErrorObject (U ''Error'') (U ''fetch failed''))))
            [U ''price''] (U ''{}'') sixRows emptyWorld)
       = Inr (insightsErrorPrefix @ U ''fetch failed'')"
  using getDatasetInsights_never_raises
    [of "exampleEnv exampleKey (Inl (ErrorObject (U ''Error'') (U ''fetch failed'')))"
        "[U ''price'']" "U ''{}''" sixRows emptyWorld "U ''Error''" "U ''fetch failed''"]
    exampleKey_configured
  by (simp add: exampleEnv_simps)

section \<open>Failures inside \<open>getVariableSuggestions\<close>\<close>

text \<open>
  C4. With a credential configured, \<open>getVariableSuggestions\<close> sends one request, and
  whatever is raised inside its \<open>try\<close> block is caught and raised again as one
  \<open>Error\<close> whose message is a fixed text followed by the message of what was caught:
  an error of the remote call with message \<open>m\<close> gives the text followed by \<open>m\<close>; a
  response that is not JSON gives the text followed by the message of the SyntaxError;
  a failed validation gives the text followed by the message of the error it raised.
  With or without a credential, the operation either returns a value or raises a plain
  \<open>Error\<close>: no failure is returned as a value, and nothing else is ever raised.
\<close>

theorem getVariableSuggestions_failures_wrapped:
  "(\<not> credentialMissing (API_KEY e) \<and>
    request = suggestionsRequest (suggestionsPrompt headers (stringifyRows e (take 5 sampleData)))
    \<longrightarrow>
      network (snd (getVariableSuggestions e headers sampleData w)) = network w @ [request]
    \<and> (\<forall>name m. generateContent e request = Inl (ErrorObject name m) \<longrightarrow>
          fst (getVariableSuggestions e headers sampleData w) =
            Inl (ErrorObject (U ''Error'') (suggestionsErrorPrefix @ m)))
    \<and> (\<forall>response. generateContent e request = Inr response \<and> JSON_parse (trim response) = None \<longrightarrow>
          fst (getVariableSuggestions e headers sampleData w) =
            Inl (ErrorObject (U ''Error'')
                   (suggestionsErrorPrefix @ syntaxErrorMessage e (trim response))))
    \<and> (\<forall>response suggestions name m.
          generateContent e request = Inr response \<and>
          JSON_parse (trim response) = Some suggestions \<and>
          validateSuggestions e suggestions = Inl (ErrorObject name m) \<longrightarrow>
          fst (getVariableSuggestions e headers sampleData w) =
            Inl (ErrorObject (U ''Error'') (suggestionsErrorPrefix @ m))))
   \<and> ((\<exists>suggestions. fst (getVariableSuggestions e headers sampleData w) = Inr suggestions) \<or>
      (\<exists>message. fst (getVariableSuggestions e headers sampleData w) =
         Inl (ErrorObject (U ''Error'') message)))"
proof (intro conjI impI allI)
  assume a: "\<not> credentialMissing (API_KEY e) \<and>
    request = suggestionsRequest (suggestionsPrompt headers (stringifyRows e (take 5 sampleData)))"
  then show "network (snd (getVariableSuggestions e headers sampleData w)) = network w @ [request]"
    by (simp add: getVariableSuggestions_network)
  fix name m
  assume "generateContent e request = Inl (ErrorObject name m)"
  with a show "fst (getVariableSuggestions e headers sampleData w) =
      Inl (ErrorObject (U ''Error'') (suggestionsErrorPrefix @ m))"
    by (simp add: getVariableSuggestions_outcome suggestionsFromResponse_def newError_def)
next
  fix response
  assume "\<not> credentialMissing (API_KEY e) \<and>
    request = suggestionsRequest (suggestionsPrompt headers (stringifyRows e (take 5 sampleData)))"
    and "generateContent e request = Inr response \<and> JSON_parse (trim response) = None"
  then show "fst (getVariableSuggestions e headers sampleData w) =
      Inl (ErrorObject (U ''Error'') (suggestionsErrorPrefix @ syntaxErrorMessage e (trim response)))"
    by (simp add: getVariableSuggestions_outcome suggestionsFromResponse_def newError_def)
next
  fix response suggestions name m
  assume "\<not> credentialMissing (API_KEY e) \<and>
    request = suggestionsRequest (suggestionsPrompt headers (stringifyRows e (take 5 sampleData)))"
    and "generateContent e request = Inr response \<and>
      JSON_parse (trim response) = Some suggestions \<and>
      validateSuggestions e suggestions = Inl (ErrorObject name m)"
  then show "fst (getVariableSuggestions e headers sampleData w) =
      Inl (ErrorObject (U ''Error'') (suggestionsErrorPrefix @ m))"
    by (simp add: getVariableSuggestions_outcome suggestionsFromResponse_def newError_def)
next
  show "(\<exists>suggestions. fst (getVariableSuggestions e headers sampleData w) = Inr suggestions) \<or>
      (\<exists>message. fst (getVariableSuggestions e headers sampleData w) =
         Inl (ErrorObject (U ''Error'') message))"
  proof (cases "credentialMissing (API_KEY e)")
    case True
    then show ?thesis by (simp add: getVariableSuggestions_def newError_def)
  next
    case False
    then show ?thesis
      by (simp add: getVariableSuggestions_outcome newError_def split: sum.splits)
  qed
qed

theorem getVariableSuggestions_failures_wrapped_witness:
  "fst (getVariableSuggestions
          (exampleEnv exampleKey (Inl (ErrorObject (U ''ApiError'') (U ''fetch failed''))))
          [U ''price''] sixRows emptyWorld)
     = Inl (ErrorObject (U ''Error'') (suggestionsErrorPrefix @ U ''fetch failed''))
   \<and> fst (getVariableSuggestions (exampleEnv exampleKey (Inr (U ''not json'')))
          [U ''price''] sixRows emptyWorld)
     = Inl (ErrorObject (U ''Error'') (suggestionsErrorPrefix @ U ''Unexpected token''))
   \<and> fst (getVariableSuggestions (exampleEnv exampleKey (Inr missingDependentText))
          [U ''price''] sixRows emptyWorld)
     = Inl (ErrorObject (U ''Error'') (suggestionsErrorPrefix @ unexpectedShape))"
  using
    getVariableSuggestions_failures_wrapped
      [where e = "exampleEnv exampleKey (Inl (ErrorObject (U ''ApiError'') (U ''fetch failed'')))"
         and headers = "[U ''price'']" and sampleData = sixRows and w = emptyWorld
         and request = "suggestionsRequest (suggestionsPrompt [U ''price'']
           (stringifyRows (exampleEnv exampleKey (Inl (ErrorObject (U ''ApiError'') (U ''fetch failed''))))
             (take 5 sixRows)))"]
    getVariableSuggestions_failures_wrapped
      [where e = "exampleEnv exampleKey (Inr (U ''not json''))"
         and headers = "[U ''price'']" and sampleData = sixRows and w = emptyWorld
         and request = "suggestionsRequest (suggestionsPrompt [U ''price'']
           (stringifyRows (exampleEnv exampleKey (Inr (U ''not json''))) (take 5 sixRows)))"]
    getVariableSuggestions_failures_wrapped
      [where e = "exampleEnv exampleKey (Inr missingDependentText)"
         and headers = "[U ''price'']" and sampleData = sixRows and w = emptyWorld
         and request = "suggestionsRequest (suggestionsPrompt [U ''price'']
           (stringifyRows (exampleEnv exampleKey (Inr missingDependentText)) (take 5 sixRows)))"]
    exampleKey_configured parse_not_json parse_missingDependentText
    validate_examples(1) [of "exampleEnv exampleKey (Inr missingDependentText)"]
  by (simp add: exampleEnv_simps)

section \<open>Reading the response\<close>

text \<open>
  C5. With a credential configured, when the remote call answers exactly the text
  \<open>{"dependentVar":"sales","independentVars":["price","ad_spend"]}\<close>,
  \<open>getVariableSuggestions\<close> returns, and does not raise, the record with
  \<open>dependentVar\<close> \<open>sales\<close> and \<open>independentVars\<close> \<open>price\<close>, \<open>ad_spend\<close>.
\<close>

theorem getVariableSuggestions_sales:
  assumes "\<not> credentialMissing (API_KEY e)"
    and "generateContent e
           (suggestionsRequest (suggestionsPrompt headers (stringifyRows e (take 5 sampleData))))
         = Inr salesText"
  shows "fst (getVariableSuggestions e headers sampleData w) =
           Inr (JObj [(U ''dependentVar'', JStr (U ''sales'')),
                      (U ''independentVars'', JArr [JStr (U ''price''), JStr (U ''ad_spend'')])])"
  using assms parse_salesText
  by (simp add: getVariableSuggestions_outcome suggestionsFromResponse_def validateSuggestions_def
      salesRecord_def getProperty_examples example_names)

theorem getVariableSuggestions_sales_witness:
  "\<not> credentialMissing (API_KEY (exampleEnv exampleKey (Inr salesText)))
   \<and> fst (getVariableSuggestions (exampleEnv exampleKey (Inr salesText)) [U ''price''] sixRows emptyWorld)
     = Inr (JObj [(U ''dependentVar'', JStr (U ''sales'')),
                  (U ''independentVars'', JArr [JStr (U ''price''), JStr (U ''ad_spend'')])])"
  using getVariableSuggestions_sales
      [of "exampleEnv exampleKey (Inr salesText)" "[U ''price'']" sixRows emptyWorld]
    exampleKey_configured
  by (simp add: exampleEnv_simps)

text \<open>
  The shape check on every parsed value other than \<open>null\<close>: both property reads
  succeed, and if the \<open>dependentVar\<close> read is absent or falsy, or the
  \<open>independentVars\<close> read is absent or not an array, \<open>getVariableSuggestions\<close>
  raises the \<open>Error\<close> whose message is the fixed text followed by the shape message.
  Nothing else is checked: with a truthy \<open>dependentVar\<close> and an array, also an empty
  one, the parsed value is returned. The response \<open>{"independentVars":["price"]}\<close>
  is the instance that follows.
\<close>

lemma getVariableSuggestions_shape:
  assumes "\<not> credentialMissing (API_KEY e)"
    and "generateContent e
           (suggestionsRequest (suggestionsPrompt headers (stringifyRows e (take 5 sampleData))))
         = Inr response"
    and "JSON_parse (trim response) = Some suggestions"
    and "suggestions \<noteq> JNull"
  shows "(\<exists>dependentVar independentVars.
            getProperty suggestions (U ''dependentVar'') = Some dependentVar
          \<and> getProperty suggestions (U ''independentVars'') = Some independentVars
          \<and> fst (getVariableSuggestions e headers sampleData w) =
              (if \<not> toBoolean dependentVar \<or> \<not> isArray independentVars
               then Inl (ErrorObject (U ''Error'') (suggestionsErrorPrefix @ unexpectedShape))
               else Inr suggestions))
       \<and> isArray (Some (JArr []))"
proof -
  from assms(4) obtain dependentVar independentVars
    where reads: "getProperty suggestions (U ''dependentVar'') = Some dependentVar"
      "getProperty suggestions (U ''independentVars'') = Some independentVars"
    using getProperty_null by (metis not_None_eq)
  have "fst (getVariableSuggestions e headers sampleData w) =
      (if \<not> toBoolean dependentVar \<or> \<not> isArray independentVars
       then Inl (ErrorObject (U ''Error'') (suggestionsErrorPrefix @ unexpectedShape))
       else Inr suggestions)"
    using assms(1-3) reads
    by (simp add: getVariableSuggestions_outcome suggestionsFromResponse_def
        validateSuggestions_def newError_def)
  with reads show ?thesis by auto
qed

lemma getVariableSuggestions_shape_missing_dependentVar:
  "JSON_parse (trim missingDependentText) =
     Some (JObj [(U ''independentVars'', JArr [JStr (U ''price'')])])
   \<and> getProperty (JObj [(U ''independentVars'', JArr [JStr (U ''price'')])]) (U ''dependentVar'')
     = Some None
   \<and> fst (getVariableSuggestions (exampleEnv exampleKey (Inr missingDependentText))
          [U ''price''] sixRows emptyWorld)
     = Inl (ErrorObject (U ''Error'') (suggestionsErrorPrefix @ unexpectedShape))"
  using getVariableSuggestions_shape
      [of "exampleEnv exampleKey (Inr missingDependentText)" "[U ''price'']" sixRows
          missingDependentText "JObj [(U ''independentVars'', JArr [JStr (U ''price'')])]"
          emptyWorld]
    exampleKey_configured parse_missingDependentText
  by (auto simp add: exampleEnv_simps getProperty_examples example_names)

text \<open>
  C6. A response that parses as JSON and whose \<open>dependentVar\<close> is absent or falsy,
  or whose \<open>independentVars\<close> is absent or not an array, is to be refused with the
  shape message. The code does so for the responses \<open>"sales"\<close>, \<open>[1]\<close>,
  \<open>42\<close> and \<open>{"independentVars":["price"]}\<close>, but not for the response
  \<open>null\<close>: it parses as JSON and has no \<open>dependentVar\<close>, the read
  \<open>suggestions.dependentVar\<close> throws a TypeError before the check is made, and the
  \<open>Error\<close> raised to the caller carries the TypeError's message, not the shape
  message. The check has no guard for \<open>null\<close>.
\<close>

theorem getVariableSuggestions_shape_null:
  \<open>JSON_parse (trim (U ''null'')) = Some JNull
   \<and> fst (getVariableSuggestions (exampleEnv exampleKey (Inr (U ''null'')))
          [U ''price''] sixRows emptyWorld)
     = Inl (ErrorObject (U ''Error'')
         (suggestionsErrorPrefix @
          U ''Cannot read properties of null (reading '' @ [0x27] @ U ''dependentVar'' @ [0x27] @ U '')''))
   \<and> fst (getVariableSuggestions (exampleEnv exampleKey (Inr (U ''null'')))
          [U ''price''] sixRows emptyWorld)
     \<noteq> Inl (ErrorObject (U ''Error'') (suggestionsErrorPrefix @ unexpectedShape))
   \<and> fst (getVariableSuggestions (exampleEnv exampleKey (Inr (U ''"sales"'')))
          [U ''price''] sixRows emptyWorld)
     = Inl (ErrorObject (U ''Error'') (suggestionsErrorPrefix @ unexpectedShape))
   \<and> fst (getVariableSuggestions (exampleEnv exampleKey (Inr (U ''[1]'')))
          [U ''price''] sixRows emptyWorld)
     = Inl (ErrorObject (U ''Error'') (suggestionsErrorPrefix @ unexpectedShape))
   \<and> fst (getVariableSuggestions (exampleEnv exampleKey (Inr (U ''42'')))
          [U ''price''] sixRows emptyWorld)
     = Inl (ErrorObject (U ''Error'') (suggestionsErrorPrefix @ unexpectedShape))
   \<and> fst (getVariableSuggestions (exampleEnv exampleKey (Inr missingDependentText))
          [U ''price''] sixRows emptyWorld)
     = Inl (ErrorObject (U ''Error'') (suggestionsErrorPrefix @ unexpectedShape))\<close>
proof -
  have null: "fst (getVariableSuggestions (exampleEnv exampleKey (Inr (U ''null'')))
          [U ''price''] sixRows emptyWorld)
     = Inl (ErrorObject (U ''Error'')
         (suggestionsErrorPrefix @
          U ''Cannot read properties of null (reading '' @ [0x27] @ U ''dependentVar'' @ [0x27] @ U '')''))"
    using exampleKey_configured parse_null
    by (simp add: getVariableSuggestions_outcome suggestionsFromResponse_def validate_examples
        newError_def exampleEnv_simps typeError_text)
  have differs: "fst (getVariableSuggestions (exampleEnv exampleKey (Inr (U ''null'')))
          [U ''price''] sixRows emptyWorld)
     \<noteq> Inl (ErrorObject (U ''Error'') (suggestionsErrorPrefix @ unexpectedShape))"
    using typeError_text_differs by (simp add: null)
  have refused: "fst (getVariableSuggestions (exampleEnv exampleKey (Inr response))
          [U ''price''] sixRows emptyWorld)
     = Inl (ErrorObject (U ''Error'') (suggestionsErrorPrefix @ unexpectedShape))"
    if "JSON_parse (trim response) = Some suggestions"
      and "getProperty suggestions (U ''dependentVar'') = Some None"
    for response suggestions
    using that exampleKey_configured
    by (simp add: getVariableSuggestions_outcome suggestionsFromResponse_def
        validateSuggestions_def newError_def exampleEnv_simps)
  have string: \<open>JSON_parse (trim (U ''"sales"'')) = Some (JStr (U ''sales''))\<close>
    by code_simp
  have array: "JSON_parse (trim (U ''[1]'')) = Some (JArr [JNum 1])"
    by code_simp
  have number: "JSON_parse (trim (U ''42'')) = Some (JNum 42)"
    by code_simp
  show ?thesis
    using null differs parse_null
      refused [OF string] refused [OF array] refused [OF number]
      refused [OF parse_missingDependentText getProperty_examples(1)]
    by simp
qed

text \<open>
  C7. With a credential configured, when the trimmed response is not valid JSON (as
  \<open>not json\<close>), \<open>getVariableSuggestions\<close> raises an \<open>Error\<close> whose message is the
  fixed text followed by the message of the SyntaxError that \<open>JSON.parse\<close> threw.
\<close>

theorem getVariableSuggestions_not_json:
  assumes "\<not> credentialMissing (API_KEY e)"
    and "generateContent e
           (suggestionsRequest (suggestionsPrompt headers (stringifyRows e (take 5 sampleData))))
         = Inr response"
    and "JSON_parse (trim response) = None"
  shows "fst (getVariableSuggestions e headers sampleData w) =
           Inl (ErrorObject (U ''Error'')
                  (suggestionsErrorPrefix @ syntaxErrorMessage e (trim response)))"
  using assms
  by (simp add: getVariableSuggestions_outcome suggestionsFromResponse_def newError_def)

theorem getVariableSuggestions_not_json_witness:
  "JSON_parse (trim (U ''not json'')) = None
   \<and> fst (getVariableSuggestions (exampleEnv exampleKey (Inr (U ''not json'')))
          [U ''price''] sixRows emptyWorld)
     = Inl (ErrorObject (U ''Error'') (suggestionsErrorPrefix @ U ''Unexpected token''))"
  using getVariableSuggestions_not_json
      [of "exampleEnv exampleKey (Inr (U ''not json''))" "[U ''price'']" sixRows
          "U ''not json''" emptyWorld]
    exampleKey_configured parse_not_json
  by (simp add: exampleEnv_simps)

section \<open>The sample rows in the prompt\<close>

text \<open>
  C8. With a credential configured and a sample of more than 5 rows,
  \<open>getVariableSuggestions\<close> sends one request, and the prompt that request carries
  as its \<open>contents\<close> is the template with the headers and with the serialization of
  the first 5 rows only: the call does the same as a call with the first 5 rows alone.
  \<open>getDatasetInsights\<close> sends one request, and the prompt it carries is the template
  with the headers, the serialized statistics and the serialization of the sample as
  it was given.
\<close>

theorem sample_rows_in_prompt:
  assumes "\<not> credentialMissing (API_KEY e)"
    and "5 < length sampleData"
  shows "network (snd (getVariableSuggestions e headers sampleData w)) =
           network w @
             [suggestionsRequest (suggestionsPrompt headers (stringifyRows e (take 5 sampleData)))]
       \<and> map contents (network (snd (getVariableSuggestions e headers sampleData w))) =
           map contents (network w) @
             [suggestionsPromptPart1 @ join (U '', '') headers @ suggestionsPromptPart2 @
              stringifyRows e (take 5 sampleData) @ suggestionsPromptPart3]
       \<and> getVariableSuggestions e headers sampleData w =
           getVariableSuggestions e headers (take 5 sampleData) w
       \<and> suggestionsPrompt headers (stringifyRows e (take 5 sampleData)) =
           suggestionsPromptPart1 @ join (U '', '') headers @ suggestionsPromptPart2 @
           stringifyRows e (take 5 sampleData) @ suggestionsPromptPart3
       \<and> length (take 5 sampleData) = 5
       \<and> network (snd (getDatasetInsights e headers stats sampleData w)) =
           network w @
             [insightsRequest
                (insightsPrompt headers (stringifyStats e stats) (stringifyRows e sampleData))]
       \<and> map contents (network (snd (getDatasetInsights e headers stats sampleData w))) =
           map contents (network w) @
             [insightsPromptPart1 @ join (U '', '') headers @ insightsPromptPart2 @
              stringifyStats e stats @ insightsPromptPart3 @
              stringifyRows e sampleData @ insightsPromptPart4]
       \<and> insightsPrompt headers (stringifyStats e stats) (stringifyRows e sampleData) =
           insightsPromptPart1 @ join (U '', '') headers @ insightsPromptPart2 @
           stringifyStats e stats @ insightsPromptPart3 @
           stringifyRows e sampleData @ insightsPromptPart4"
proof -
  have same: "getVariableSuggestions e headers sampleData w =
      getVariableSuggestions e headers (take 5 sampleData) w"
    by (simp add: getVariableSuggestions_def)
  have carried:
    "contents (suggestionsRequest prompt) = prompt"
    "contents (insightsRequest prompt) = prompt" for prompt
    by (simp_all add: suggestionsRequest_def insightsRequest_def)
  show ?thesis
    using assms same
    by (simp add: getVariableSuggestions_network getDatasetInsights_network carried
        suggestionsPrompt_def insightsPrompt_def)
qed

theorem sample_rows_in_prompt_witness:
  "5 < length sixRows
   \<and> network (snd (getVariableSuggestions (exampleEnv exampleKey (Inr salesText))
                   [U ''price''] sixRows emptyWorld))
     = [suggestionsRequest
          (suggestionsPrompt [U ''price''] (U ''['' @ U ''1,2,3,4,5'' @ U '']''))]
   \<and> map contents (network (snd (getVariableSuggestions (exampleEnv exampleKey (Inr salesText))
                   [U ''price''] sixRows emptyWorld)))
     = [suggestionsPromptPart1 @ U ''price'' @ suggestionsPromptPart2 @
        U ''[1,2,3,4,5]'' @ suggestionsPromptPart3]
   \<and> network (snd (getDatasetInsights (exampleEnv exampleKey (Inr salesText))
                   [U ''price''] (U ''{}'') sixRows emptyWorld))
     = [insightsRequest
          (insightsPrompt [U ''price''] (U ''{}'') (U ''['' @ U ''1,2,3,4,5,6'' @ U '']''))]
   \<and> map contents (network (snd (getDatasetInsights (exampleEnv exampleKey (Inr salesText))
                   [U ''price''] (U ''{}'') sixRows emptyWorld)))
     = [insightsPromptPart1 @ U ''price'' @ insightsPromptPart2 @ U ''{}'' @
        insightsPromptPart3 @ U ''[1,2,3,4,5,6]'' @ insightsPromptPart4]"
proof -
  have key: "\<not> credentialMissing (API_KEY (exampleEnv exampleKey (Inr salesText)))"
    using exampleKey_configured by (simp add: exampleEnv_simps)
  have six: "5 < length sixRows"
    by (simp add: sixRows_def)
  have rows:
    "stringifyRows (exampleEnv exampleKey (Inr salesText)) (take 5 sixRows) = U ''[1,2,3,4,5]''"
    "stringifyRows (exampleEnv exampleKey (Inr salesText)) sixRows = U ''[1,2,3,4,5,6]''"
    "stringifyStats (exampleEnv exampleKey (Inr salesText)) (U ''{}'') = U ''{}''"
    by (simp_all add: exampleEnv_def sixRows_def U_def)
  have texts:
    "U ''['' @ U ''1,2,3,4,5'' @ U '']'' = U ''[1,2,3,4,5]''"
    "U ''['' @ U ''1,2,3,4,5,6'' @ U '']'' = U ''[1,2,3,4,5,6]''"
    by (simp_all add: U_def)
  have unsent: "network emptyWorld = []"
    by (simp add: emptyWorld_def)
  note sent = sample_rows_in_prompt
      [of "exampleEnv exampleKey (Inr salesText)" sixRows "[U ''price'']" emptyWorld "U ''{}''",
       OF key six]
  note suggestions = sent [THEN conjunct1] sent [THEN conjunct2, THEN conjunct1]
  note insights = sent [THEN conjunct2, THEN conjunct2, THEN conjunct2, THEN conjunct2,
      THEN conjunct2]
  show ?thesis
    unfolding texts
    using six suggestions [unfolded rows unsent]
      insights [THEN conjunct1, unfolded rows unsent]
      insights [THEN conjunct2, THEN conjunct1, unfolded rows unsent]
    by simp
qed

section \<open>The value returned\<close>

text \<open>
  C9 (amended). On every successful run, \<open>getVariableSuggestions\<close> returns the value
  parsed from the trimmed response, whole and unchanged, with every field the response
  carries; that value is not \<open>null\<close>, its \<open>dependentVar\<close> is truthy and its
  \<open>independentVars\<close> is an array.
\<close>

theorem getVariableSuggestions_returns_parsed:
  assumes "fst (getVariableSuggestions e headers sampleData w) = Inr suggestions"
  shows "\<exists>response dependentVar independentVars.
           generateContent e
             (suggestionsRequest (suggestionsPrompt headers (stringifyRows e (take 5 sampleData))))
             = Inr response
         \<and> JSON_parse (trim response) = Some suggestions
         \<and> getProperty suggestions (U ''dependentVar'') = Some dependentVar
         \<and> toBoolean dependentVar
         \<and> getProperty suggestions (U ''independentVars'') = Some independentVars
         \<and> isArray independentVars"
  using assms
  by (auto simp add: getVariableSuggestions_def suggestionsFromResponse_def
      validateSuggestions_def Let_def newError_def
      split: if_splits sum.splits option.splits)

theorem getVariableSuggestions_returns_parsed_witness:
  "fst (getVariableSuggestions (exampleEnv exampleKey (Inr extraFieldText))
          [U ''price''] sixRows emptyWorld)
     = Inr (JObj [(U ''dependentVar'', JStr (U ''sales'')), (U ''independentVars'', JArr []),
                  (U ''extra'', JNull)])
   \<and> JSON_parse (trim extraFieldText) =
       Some (JObj [(U ''dependentVar'', JStr (U ''sales'')), (U ''independentVars'', JArr []),
                   (U ''extra'', JNull)])"
proof -
  have returned:
    "fst (getVariableSuggestions (exampleEnv exampleKey (Inr extraFieldText))
            [U ''price''] sixRows emptyWorld)
       = Inr (JObj [(U ''dependentVar'', JStr (U ''sales'')), (U ''independentVars'', JArr []),
                    (U ''extra'', JNull)])"
    using exampleKey_configured parse_extraFieldText
    by (simp add: getVariableSuggestions_outcome suggestionsFromResponse_def
        validateSuggestions_def exampleEnv_simps getProperty_examples example_names)
  from getVariableSuggestions_returns_parsed [OF returned] returned
  show ?thesis by (auto simp add: exampleEnv_simps)
qed

text \<open>
  A response that passes validation and carries a third field: the value returned has
  the third field too, so it is not the record of the two validated fields.
\<close>

theorem getVariableSuggestions_returns_parsed_counterexample:
  "fst (getVariableSuggestions (exampleEnv exampleKey (Inr extraFieldText))
          [U ''price''] sixRows emptyWorld)
     = Inr (JObj [(U ''dependentVar'', JStr (U ''sales'')), (U ''independentVars'', JArr []),
                  (U ''extra'', JNull)])
   \<and> fst (getVariableSuggestions (exampleEnv exampleKey (Inr extraFieldText))
          [U ''price''] sixRows emptyWorld)
     \<noteq> Inr (JObj [(U ''dependentVar'', JStr (U ''sales'')), (U ''independentVars'', JArr [])])"
  using exampleKey_configured parse_extraFieldText
  by (simp add: getVariableSuggestions_outcome suggestionsFromResponse_def
      validateSuggestions_def exampleEnv_simps getProperty_examples example_names)

text \<open>
  C10. The validation looks at the truthiness of \<open>dependentVar\<close> only, not at its type,
  and at \<open>independentVars\<close> being an array only, not at its elements: with a credential
  configured, a parsed response whose \<open>dependentVar\<close> is any truthy value (a number or
  an object as well as a string) and whose \<open>independentVars\<close> is an array of any
  elements is returned as it is, and no shape error is raised.
\<close>

theorem getVariableSuggestions_untyped:
  assumes "\<not> credentialMissing (API_KEY e)"
    and "generateContent e
           (suggestionsRequest (suggestionsPrompt headers (stringifyRows e (take 5 sampleData))))
         = Inr response"
    and "JSON_parse (trim response) = Some suggestions"
    and "getProperty suggestions (U ''dependentVar'') = Some dependentVar"
    and "toBoolean dependentVar"
    and "getProperty suggestions (U ''independentVars'') = Some (Some (JArr elements))"
  shows "fst (getVariableSuggestions e headers sampleData w) = Inr suggestions
       \<and> toBoolean (Some (JNum 42)) \<and> toBoolean (Some (JObj []))"
  using assms
  by (simp add: getVariableSuggestions_outcome suggestionsFromResponse_def validateSuggestions_def)

theorem getVariableSuggestions_untyped_witness:
  "JSON_parse (trim untypedText) =
     Some (JObj [(U ''dependentVar'', JNum 42),
                 (U ''independentVars'', JArr [JNum 1, JNull, JObj []])])
   \<and> toBoolean (Some (JNum 42))
   \<and> fst (getVariableSuggestions (exampleEnv exampleKey (Inr untypedText))
          [U ''price''] sixRows emptyWorld)
     = Inr (JObj [(U ''dependentVar'', JNum 42),
                  (U ''independentVars'', JArr [JNum 1, JNull, JObj []])])"
  using getVariableSuggestions_untyped
      [of "exampleEnv exampleKey (Inr untypedText)" "[U ''price'']" sixRows untypedText
          "JObj [(U ''dependentVar'', JNum 42),
                 (U ''independentVars'', JArr [JNum 1, JNull, JObj []])]"
          "Some (JNum 42)" "[JNum 1, JNull, JObj []]" emptyWorld]
    exampleKey_configured parse_untypedText
  by (simp add: exampleEnv_simps getProperty_examples example_names)

end
